theory Spec2Isabelle
  imports Complex_Main "HOL-Library.Sublist"
begin

section \<open>Text helpers of the course store (backend/main.py)\<close>

text \<open>
  Python strings are modelled as \<open>string\<close> over ASCII text. The three character classes
  below are the ones the source reaches through \<open>str.lower\<close>, \<open>str.strip\<close> and the
  regular expressions \<open>\w\<close> and \<open>\s\<close>, restricted to code points below 128:
  white space is 0x09-0x0d, 0x1c-0x1f and 0x20; a word character is a letter, a digit or
  the underscore; lower-casing moves A-Z to a-z.
\<close>

definition is_space :: "char \<Rightarrow> bool" where
  "is_space c = (let n = (of_char c :: nat) in (9 \<le> n \<and> n \<le> 13) \<or> (28 \<le> n \<and> n \<le> 32))"

definition is_word :: "char \<Rightarrow> bool" where
  "is_word c = (let n = (of_char c :: nat) in
     (48 \<le> n \<and> n \<le> 57) \<or> (65 \<le> n \<and> n \<le> 90) \<or> n = 95 \<or> (97 \<le> n \<and> n \<le> 122))"

definition lower_chr :: "char \<Rightarrow> char" where
  "lower_chr c = (let n = (of_char c :: nat) in
     if 65 \<le> n \<and> n \<le> 90 then char_of (n + 32) else c)"

definition lower :: "string \<Rightarrow> string" where
  "lower s = map lower_chr s"

definition strip :: "string \<Rightarrow> string" where
  "strip s = rev (dropWhile is_space (rev (dropWhile is_space s)))"

text \<open>\<open>re.sub(r'[^\w\s-]', '', text)\<close>: every character outside the class is deleted.\<close>

definition is_kept :: "char \<Rightarrow> bool" where
  "is_kept c = (is_word c \<or> is_space c \<or> c = CHR ''-'')"

definition remove_punct :: "string \<Rightarrow> string" where
  "remove_punct s = filter is_kept s"

text \<open>\<open>re.sub(r'[-\s]+', '-', text)\<close>: every maximal run of hyphens and white space
  becomes one hyphen.\<close>

definition is_sep :: "char \<Rightarrow> bool" where
  "is_sep c = (c = CHR ''-'' \<or> is_space c)"

function collapse :: "string \<Rightarrow> string" where
  "collapse [] = []"
| "collapse (c # cs) =
     (if is_sep c then CHR ''-'' # collapse (dropWhile is_sep cs) else c # collapse cs)"
  by pat_completeness auto
termination
  by (relation "measure length") (auto simp: length_dropWhile_le less_Suc_eq_le)

definition slugify :: "string \<Rightarrow> string" where
  "slugify text = collapse (remove_punct (strip (lower text)))"


text \<open>The \<open>in\<close> operator on strings is the contiguous-substring test, \<^const>\<open>sublist\<close>.\<close>

section \<open>Numbers: true division and float multiplication\<close>

text \<open>
  \<open>calculate_progress\<close> evaluates \<open>int(completed / total * 100)\<close>. In Python the
  quotient of two ints is a float: the exact quotient rounded once to the nearest
  binary64 number, ties to even. The product with \<open>100\<close> is rounded the same way, and
  \<open>int\<close> truncates towards zero. A finite float is modelled by the rational it denotes;
  \<open>fl\<close> is the rounding, for magnitudes below the overflow threshold (every value here
  is at most 100). The unit in the last place of a number in \<open>[2^e, 2^(e+1))\<close> is
  \<open>2^(e-52)\<close>, and \<open>2^(-1074)\<close> below the normal range.
\<close>

fun bit_length :: "nat \<Rightarrow> nat" where
  "bit_length n = (if n = 0 then 0 else Suc (bit_length (n div 2)))"

declare bit_length.simps [simp del]

definition ilog2 :: "rat \<Rightarrow> int" where
  "ilog2 x = (if 1 \<le> x then int (bit_length (nat \<lfloor>x\<rfloor>)) - 1
              else - int (bit_length (nat (\<lceil>1 / x\<rceil> - 1))))"

definition round_half_even :: "rat \<Rightarrow> int" where
  "round_half_even x = (let f = \<lfloor>x\<rfloor>; d = x - of_int f in
     if d < 1 / 2 then f else if 1 / 2 < d then f + 1 else if even f then f else f + 1)"

definition fl :: "rat \<Rightarrow> rat" where
  "fl x = (if x = 0 then 0 else
     let a = \<bar>x\<bar>; e = max (ilog2 a) (- 1022); ulp = power_int 2 (e - 52) in
       sgn x * (of_int (round_half_even (a / ulp)) * ulp))"

definition py_truediv :: "int \<Rightarrow> int \<Rightarrow> rat" where
  "py_truediv a b = fl (of_int a / of_int b)"

definition py_float_mul :: "rat \<Rightarrow> rat \<Rightarrow> rat" where
  "py_float_mul x y = fl (x * y)"

definition py_int :: "rat \<Rightarrow> int" where
  "py_int x = (if 0 \<le> x then \<lfloor>x\<rfloor> else \<lceil>x\<rceil>)"

section \<open>Data model\<close>

text \<open>
  The JSON objects of \<open>index.json\<close> and \<open>course.json\<close> are records with the keys the
  source writes. Ids are Python ints.
\<close>

record topic =
  topic_id :: int
  topic_title :: string
  topic_slug :: string
  topic_file :: string
  topic_completed :: bool
  topic_priority :: string
  topic_time :: int
  topic_locked :: bool

record module =
  module_id :: int
  module_title :: string
  module_slug :: string
  module_completed :: bool
  module_topics :: "topic list"

record course =
  course_id :: int
  course_code :: string
  course_name :: string
  course_slug :: string
  course_progress :: int
  course_modules :: "module list"

record course_ref =
  ref_id :: int
  ref_slug :: string

text \<open>
  The content root on disk. Directories, course records and topic content files are kept
  in three stores keyed by the path string the source builds: a directory path is made of
  slugs, a record path ends in \<open>course.json\<close> and a content path written by
  \<open>create_topic\<close> ends in \<open>.md\<close>, so the three never name the same file.
  \<open>index.json\<close> always exists once \<open>init_repo\<close> has run at import time.
\<close>

record repo =
  index_courses :: "course_ref list"
  fs_dirs :: "string set"
  fs_meta :: "string \<rightharpoonup> course"
  fs_text :: "string \<rightharpoonup> string"

text \<open>Faults: the \<open>HTTPException\<close>s the routes raise, and the Python exceptions that
  escape them.\<close>

datatype fault =
  HTTPException nat string
  | TypeError
  | AttributeError
  | FileNotFoundError

definition REPO_PATH :: string where
  "REPO_PATH = ''./coursemap-content''"

definition COURSES_DIR :: string where
  "COURSES_DIR = REPO_PATH @ ''/courses''"

section \<open>File-system helpers\<close>

text \<open>\<open>os.makedirs(p, exist_ok=True)\<close> creates \<open>p\<close> and every missing ancestor.\<close>

definition ancestors :: "string \<Rightarrow> string list" where
  "ancestors p = [take n p. n \<leftarrow> [0..<length p], p ! n = CHR ''/''] @ [p]"

definition makedirs :: "repo \<Rightarrow> string \<Rightarrow> repo" where
  "makedirs s p = s\<lparr>fs_dirs := fs_dirs s \<union> set (ancestors p)\<rparr>"

text \<open>\<open>open(p, 'w')\<close> needs the parent directory; without it the call raises
  \<open>FileNotFoundError\<close>.\<close>

definition dirname :: "string \<Rightarrow> string" where
  "dirname p = rev (dropWhile (\<lambda>c. c = CHR ''/'') (dropWhile (\<lambda>c. c \<noteq> CHR ''/'') (rev p)))"

definition write_text :: "repo \<Rightarrow> string \<Rightarrow> string \<Rightarrow> fault + repo" where
  "write_text s p txt =
     (if dirname p \<in> fs_dirs s then Inr (s\<lparr>fs_text := (fs_text s)(p \<mapsto> txt)\<rparr>)
      else Inl FileNotFoundError)"

definition init_repo :: repo where
  "init_repo = \<lparr>index_courses = [], fs_dirs = set (ancestors COURSES_DIR),
     fs_meta = Map.empty, fs_text = Map.empty\<rparr>"

definition load_index :: "repo \<Rightarrow> course_ref list" where
  "load_index s = index_courses s"

definition save_index :: "repo \<Rightarrow> course_ref list \<Rightarrow> repo" where
  "save_index s data = s\<lparr>index_courses := data\<rparr>"

definition meta_file :: "string \<Rightarrow> string" where
  "meta_file cslug = COURSES_DIR @ ''/'' @ cslug @ ''/course.json''"

definition get_course_meta :: "repo \<Rightarrow> string \<Rightarrow> course option" where
  "get_course_meta s cslug = fs_meta s (meta_file cslug)"

definition save_course_meta :: "repo \<Rightarrow> string \<Rightarrow> course \<Rightarrow> repo" where
  "save_course_meta s cslug data =
     (let s1 = makedirs s (COURSES_DIR @ ''/'' @ cslug)
      in s1\<lparr>fs_meta := (fs_meta s1)(meta_file cslug \<mapsto> data)\<rparr>)"

definition topic_path :: "string \<Rightarrow> string \<Rightarrow> string" where
  "topic_path cslug file = COURSES_DIR @ ''/'' @ cslug @ ''/'' @ file"

text \<open>\<open>read_content\<close> is the source's \<open>content = ""; if os.path.exists(topic_file): ...\<close>.\<close>

definition read_content :: "repo \<Rightarrow> string \<Rightarrow> string" where
  "read_content s p = (case fs_text s p of None \<Rightarrow> [] | Some content \<Rightarrow> content)"

section \<open>The version-control ledger\<close>

text \<open>
  What \<open>subprocess.run\<close> can do with a git command: the process ran and exited with a
  return code and its standard output, or it could not be launched at all (no git
  executable), which raises \<open>FileNotFoundError\<close>. With \<open>check=True\<close> a non-zero return
  code raises \<open>CalledProcessError\<close>. The outcomes of the four commands are the
  environment of a call of \<open>git_commit_push\<close>.
\<close>

datatype run_outcome = Completed int string | CannotLaunch

datatype run_error = CalledProcessError int | LaunchError

record git_env =
  git_add :: run_outcome
  git_commit :: "string \<Rightarrow> run_outcome"
  git_remote :: run_outcome
  git_push :: run_outcome

definition run_checked :: "run_outcome \<Rightarrow> run_error + string" where
  "run_checked r = (case r of
       CannotLaunch \<Rightarrow> Inl LaunchError
     | Completed rc out \<Rightarrow> if rc \<noteq> 0 then Inl (CalledProcessError rc) else Inr out)"

definition run_unchecked :: "run_outcome \<Rightarrow> run_error + string" where
  "run_unchecked r = (case r of
       CannotLaunch \<Rightarrow> Inl LaunchError
     | Completed rc out \<Rightarrow> Inr out)"

text \<open>The body of the \<open>try\<close> block.\<close>

definition git_steps :: "git_env \<Rightarrow> string \<Rightarrow> run_error + bool" where
  "git_steps g message =
     (case run_checked (git_add g) of
        Inl e \<Rightarrow> Inl e
      | Inr _ \<Rightarrow>
     (case run_checked (git_commit g message) of
        Inl e \<Rightarrow> Inl e
      | Inr _ \<Rightarrow>
     (case run_unchecked (git_remote g) of
        Inl e \<Rightarrow> Inl e
      | Inr out \<Rightarrow>
          if strip out \<noteq> [] then
            (case run_checked (git_push g) of Inl e \<Rightarrow> Inl e | Inr _ \<Rightarrow> Inr True)
          else Inr True)))"

text \<open>\<open>except subprocess.CalledProcessError\<close> is the only handler.\<close>

definition git_commit_push :: "git_env \<Rightarrow> string \<Rightarrow> fault + bool" where
  "git_commit_push g message =
     (case git_steps g message of
        Inl (CalledProcessError rc) \<Rightarrow> Inr False
      | Inl LaunchError \<Rightarrow> Inl FileNotFoundError
      | Inr b \<Rightarrow> Inr b)"


section \<open>Progress\<close>

text \<open>The two nested loops of \<open>calculate_progress\<close>, with the counters
  \<open>total\<close> and \<open>completed\<close> as the loop state.\<close>

fun count_topics :: "topic list \<Rightarrow> int \<times> int \<Rightarrow> int \<times> int" where
  "count_topics [] acc = acc"
| "count_topics (t # ts) (total_n, completed_n) =
     count_topics ts (total_n + 1, if topic_completed t then completed_n + 1 else completed_n)"

fun count_modules :: "module list \<Rightarrow> int \<times> int \<Rightarrow> int \<times> int" where
  "count_modules [] acc = acc"
| "count_modules (m # ms) acc = count_modules ms (count_topics (module_topics m) acc)"

definition calculate_progress :: "repo \<Rightarrow> string \<Rightarrow> int" where
  "calculate_progress s cslug =
     (case get_course_meta s cslug of
        None \<Rightarrow> 0
      | Some meta \<Rightarrow>
          (case count_modules (course_modules meta) (0, 0) of (total_n, completed_n) \<Rightarrow>
             if total_n > 0 then py_int (py_float_mul (py_truediv completed_n total_n) 100)
             else 0))"

text \<open>The progress of a course in the specification's words: the floor of the exact
  percentage of completed topics, and 0 for a course without topics.\<close>

definition progress_spec :: "course \<Rightarrow> int" where
  "progress_spec c =
     (let topics = concat (map module_topics (course_modules c));
          total_n = length topics;
          completed_n = length (filter topic_completed topics)
      in if total_n > 0 then \<lfloor>(of_nat completed_n :: rat) / of_nat total_n * 100\<rfloor> else 0)"

section \<open>Request bodies\<close>

record course_create =
  cc_code :: string
  cc_name :: string

record module_create =
  mc_title :: string

text \<open>\<open>TopicCreate\<close> has defaults for \<open>priority\<close> and \<open>time\<close>: a request body may leave
  them out, and the route sees the defaults.\<close>

record topic_body =
  body_title :: string
  body_priority :: "string option"
  body_time :: "int option"

record topic_create =
  tc_title :: string
  tc_priority :: string
  tc_time :: int

definition TopicCreate :: "topic_body \<Rightarrow> topic_create" where
  "TopicCreate b = \<lparr>tc_title = body_title b,
     tc_priority = (case body_priority b of None \<Rightarrow> ''medium'' | Some p \<Rightarrow> p),
     tc_time = (case body_time b of None \<Rightarrow> 15 | Some t \<Rightarrow> t)\<rparr>"

record topic_update =
  upd_content :: "string option"
  upd_completed :: "bool option"

section \<open>Routes\<close>



definition create_course :: "git_env \<Rightarrow> repo \<Rightarrow> course_create \<Rightarrow> (fault + course) \<times> repo" where
  "create_course g s c =
     (let cslug = slugify (cc_code c @ ''-'' @ cc_name c);
          course_dir = COURSES_DIR @ ''/'' @ cslug
      in if course_dir \<in> fs_dirs s then (Inl (HTTPException 400 ''Course already exists''), s)
         else
           let s1 = makedirs s course_dir;
               cid = int (length (load_index s1)) + 1;
               meta = \<lparr>course_id = cid, course_code = cc_code c, course_name = cc_name c,
                       course_slug = cslug, course_progress = 0, course_modules = []\<rparr>;
               s2 = save_course_meta s1 cslug meta;
               s3 = save_index s2 (load_index s2 @ [\<lparr>ref_id = cid, ref_slug = cslug\<rparr>])
           in (case git_commit_push g (''Create course: '' @ cc_code c @ '' - '' @ cc_name c) of
                 Inl e \<Rightarrow> (Inl e, s3)
               | Inr _ \<Rightarrow> (Inr meta, s3)))"

definition get_course :: "repo \<Rightarrow> int \<Rightarrow> fault + course" where
  "get_course s cid =
     (case find (\<lambda>c. ref_id c = cid) (load_index s) of
        None \<Rightarrow> Inl (HTTPException 404 ''Course not found'')
      | Some cref \<Rightarrow>
          (case get_course_meta s (ref_slug cref) of
             None \<Rightarrow> Inl (HTTPException 404 ''Course metadata not found'')
           | Some meta \<Rightarrow>
               Inr (meta\<lparr>course_progress := calculate_progress s (ref_slug cref)\<rparr>)))"

text \<open>\<open>create_module\<close> makes the module directory before it touches \<open>meta\<close>; with no
  record, \<open>meta.get\<close> raises \<open>AttributeError\<close> on \<open>None\<close>.\<close>

definition create_module :: "git_env \<Rightarrow> repo \<Rightarrow> int \<Rightarrow> module_create \<Rightarrow> (fault + module) \<times> repo" where
  "create_module g s cid mc =
     (case find (\<lambda>c. ref_id c = cid) (load_index s) of
        None \<Rightarrow> (Inl (HTTPException 404 ''Course not found''), s)
      | Some cref \<Rightarrow>
          let meta_opt = get_course_meta s (ref_slug cref);
              mslug = slugify (mc_title mc);
              module_dir = COURSES_DIR @ ''/'' @ ref_slug cref @ ''/'' @ mslug;
              s1 = makedirs s module_dir
          in (case meta_opt of
                None \<Rightarrow> (Inl AttributeError, s1)
              | Some meta \<Rightarrow>
                  let mid = int (length (course_modules meta)) + 1;
                      new_module = \<lparr>module_id = mid, module_title = mc_title mc,
                        module_slug = mslug, module_completed = False, module_topics = []\<rparr>;
                      meta' = meta\<lparr>course_modules := course_modules meta @ [new_module]\<rparr>;
                      s2 = save_course_meta s1 (ref_slug cref) meta'
                  in (case git_commit_push g (''Add module: '' @ mc_title mc) of
                        Inl e \<Rightarrow> (Inl e, s2)
                      | Inr _ \<Rightarrow> (Inr new_module, s2))))"

text \<open>The template of a new topic's content file.\<close>

definition template :: "string \<Rightarrow> string" where
  "template title = ''# '' @ title @
     ''\<newline>\<newline>## Overview\<newline>Write your content here...\<newline>\<newline>## Key Concepts\<newline>\<newline>## Examples\<newline>\<newline>## Practice Problems\<newline>''"

text \<open>\<open>module\<close> and \<open>topic\<close> are references into \<open>meta\<close>: appending to
  \<open>module["topics"]\<close> or assigning \<open>topic["completed"]\<close> changes the first element
  with the requested id inside \<open>meta\<close>.\<close>

fun update_first :: "('a \<Rightarrow> bool) \<Rightarrow> ('a \<Rightarrow> 'a) \<Rightarrow> 'a list \<Rightarrow> 'a list" where
  "update_first P f [] = []"
| "update_first P f (x # xs) = (if P x then f x # xs else x # update_first P f xs)"

definition create_topic :: "git_env \<Rightarrow> repo \<Rightarrow> int \<Rightarrow> int \<Rightarrow> topic_create \<Rightarrow> (fault + topic) \<times> repo" where
  "create_topic g s cid mid tc =
     (case find (\<lambda>c. ref_id c = cid) (load_index s) of
        None \<Rightarrow> (Inl (HTTPException 404 ''Course not found''), s)
      | Some cref \<Rightarrow>
     (case get_course_meta s (ref_slug cref) of
        None \<Rightarrow> (Inl TypeError, s)
      | Some meta \<Rightarrow>
     (case find (\<lambda>m. module_id m = mid) (course_modules meta) of
        None \<Rightarrow> (Inl (HTTPException 404 ''Module not found''), s)
      | Some m \<Rightarrow>
          let tslug = slugify (tc_title tc);
              tfile = COURSES_DIR @ ''/'' @ ref_slug cref @ ''/'' @ module_slug m @ ''/'' @ tslug @ ''.md''
          in (case write_text s tfile (template (tc_title tc)) of
                Inl e \<Rightarrow> (Inl e, s)
              | Inr s1 \<Rightarrow>
                  let tid = int (length (module_topics m)) + 1;
                      new_topic = \<lparr>topic_id = tid, topic_title = tc_title tc, topic_slug = tslug,
                        topic_file = module_slug m @ ''/'' @ tslug @ ''.md'',
                        topic_completed = False, topic_priority = tc_priority tc,
                        topic_time = tc_time tc, topic_locked = False\<rparr>;
                      meta' = meta\<lparr>course_modules :=
                        update_first (\<lambda>m. module_id m = mid)
                          (\<lambda>m. m\<lparr>module_topics := module_topics m @ [new_topic]\<rparr>)
                          (course_modules meta)\<rparr>;
                      s2 = save_course_meta s1 (ref_slug cref) meta'
                  in (case git_commit_push g (''Add topic: '' @ tc_title tc) of
                        Inl e \<Rightarrow> (Inl e, s2)
                      | Inr _ \<Rightarrow> (Inr new_topic, s2))))))"

text \<open>The returned object \<open>{**topic, "content": content}\<close> is the pair of the topic and
  its content.\<close>

definition get_topic :: "repo \<Rightarrow> int \<Rightarrow> int \<Rightarrow> int \<Rightarrow> fault + topic \<times> string" where
  "get_topic s cid mid tid =
     (case find (\<lambda>c. ref_id c = cid) (load_index s) of
        None \<Rightarrow> Inl (HTTPException 404 ''Course not found'')
      | Some cref \<Rightarrow>
     (case get_course_meta s (ref_slug cref) of
        None \<Rightarrow> Inl TypeError
      | Some meta \<Rightarrow>
     (case find (\<lambda>m. module_id m = mid) (course_modules meta) of
        None \<Rightarrow> Inl (HTTPException 404 ''Module not found'')
      | Some m \<Rightarrow>
     (case find (\<lambda>t. topic_id t = tid) (module_topics m) of
        None \<Rightarrow> Inl (HTTPException 404 ''Topic not found'')
      | Some t \<Rightarrow>
          Inr (t, read_content s (topic_path (ref_slug cref) (topic_file t)))))))"

text \<open>The two update steps of \<open>update_topic\<close>, in the source's order: the content
  first, the completion flag second, each with its own commit. \<open>update_content\<close>
  returns the exception that escapes it, if any, and the store at that point.\<close>

definition update_content :: "git_env \<Rightarrow> repo \<Rightarrow> string \<Rightarrow> topic \<Rightarrow> string option \<Rightarrow> fault option \<times> repo" where
  "update_content g s cslug t content_opt =
     (case content_opt of
        None \<Rightarrow> (None, s)
      | Some content \<Rightarrow>
          (case write_text s (topic_path cslug (topic_file t)) content of
             Inl e \<Rightarrow> (Some e, s)
           | Inr s1 \<Rightarrow>
               (case git_commit_push g (''Update topic: '' @ topic_title t) of
                  Inl e \<Rightarrow> (Some e, s1)
                | Inr _ \<Rightarrow> (None, s1))))"

definition set_completed :: "course \<Rightarrow> int \<Rightarrow> int \<Rightarrow> bool \<Rightarrow> course" where
  "set_completed meta mid tid b =
     meta\<lparr>course_modules :=
       update_first (\<lambda>m. module_id m = mid)
         (\<lambda>m. m\<lparr>module_topics :=
            update_first (\<lambda>t. topic_id t = tid) (\<lambda>t. t\<lparr>topic_completed := b\<rparr>)
              (module_topics m)\<rparr>)
         (course_modules meta)\<rparr>"

definition update_topic ::
  "git_env \<Rightarrow> git_env \<Rightarrow> repo \<Rightarrow> int \<Rightarrow> int \<Rightarrow> int \<Rightarrow> topic_update \<Rightarrow> (fault + topic \<times> string) \<times> repo" where
  "update_topic g1 g2 s cid mid tid updates =
     (case find (\<lambda>c. ref_id c = cid) (load_index s) of
        None \<Rightarrow> (Inl (HTTPException 404 ''Course not found''), s)
      | Some cref \<Rightarrow>
     (case get_course_meta s (ref_slug cref) of
        None \<Rightarrow> (Inl TypeError, s)
      | Some meta \<Rightarrow>
     (case find (\<lambda>m. module_id m = mid) (course_modules meta) of
        None \<Rightarrow> (Inl (HTTPException 404 ''Module not found''), s)
      | Some m \<Rightarrow>
     (case find (\<lambda>t. topic_id t = tid) (module_topics m) of
        None \<Rightarrow> (Inl (HTTPException 404 ''Topic not found''), s)
      | Some t \<Rightarrow>
     (case update_content g1 s (ref_slug cref) t (upd_content updates) of
        (Some e, s1) \<Rightarrow> (Inl e, s1)
      | (None, s1) \<Rightarrow>
          (case upd_completed updates of
             None \<Rightarrow>
               (Inr (t, read_content s1 (topic_path (ref_slug cref) (topic_file t))), s1)
           | Some b \<Rightarrow>
               let t' = t\<lparr>topic_completed := b\<rparr>;
                   s2 = save_course_meta s1 (ref_slug cref) (set_completed meta mid tid b)
               in (case git_commit_push g2
                          (''Mark '' @ (if b then ''complete'' else ''incomplete'') @ '': '' @
                           topic_title t) of
                     Inl e \<Rightarrow> (Inl e, s2)
                   | Inr _ \<Rightarrow>
                       (Inr (t', read_content s2 (topic_path (ref_slug cref) (topic_file t'))),
                        s2))))))))"

section \<open>Search\<close>











section \<open>Sample data\<close>

text \<open>
  Three ledger environments: every git command succeeds and no remote is configured
  (\<open>git_ok\<close>); git is not installed (\<open>git_missing\<close>); there is nothing to commit, so
  \<open>git commit\<close> exits with 1 (\<open>git_nothing_to_commit\<close>). The stores \<open>repo1\<close> to
  \<open>repo4\<close> are built by the routes from the empty content root: a course, a module, a
  topic, and new content for the topic. \<open>repo_orphan\<close> has an index entry without a
  course record; \<open>repo_many\<close> is the store after creating twenty-one courses with code
  CS and the names a, aa, aaa, ...; \<open>repo_29_of_50\<close> holds a course with fifty topics
  titled Lesson, the first twenty-nine completed.
\<close>

definition git_ok :: git_env where
  "git_ok = \<lparr>git_add = Completed 0 [], git_commit = (\<lambda>m. Completed 0 []),
     git_remote = Completed 0 [], git_push = Completed 0 []\<rparr>"


definition cs101 :: course_create where
  "cs101 = \<lparr>cc_code = ''CS101'', cc_name = ''Algorithms''\<rparr>"

definition sorting :: module_create where
  "sorting = \<lparr>mc_title = ''Sorting''\<rparr>"

definition algo_basics :: topic_create where
  "algo_basics = TopicCreate \<lparr>body_title = ''Algo Basics'', body_priority = None, body_time = None\<rparr>"

definition repo1 :: repo where
  "repo1 = snd (create_course git_ok init_repo cs101)"

definition repo2 :: repo where
  "repo2 = snd (create_module git_ok repo1 1 sorting)"

definition repo3 :: repo where
  "repo3 = snd (create_topic git_ok repo2 1 1 algo_basics)"







definition numbered_topic :: "int \<Rightarrow> topic" where
  "numbered_topic i = \<lparr>topic_id = i, topic_title = ''Lesson'', topic_slug = ''lesson'',
     topic_file = ''sorting/lesson.md'', topic_completed = (i \<le> 29),
     topic_priority = ''medium'', topic_time = 15, topic_locked = False\<rparr>"

definition course_29_of_50 :: course where
  "course_29_of_50 = \<lparr>course_id = 1, course_code = ''CS101'', course_name = ''Algorithms'',
     course_slug = ''cs101-algorithms'', course_progress = 0, course_modules =
       [\<lparr>module_id = 1, module_title = ''Sorting'', module_slug = ''sorting'',
         module_completed = False, module_topics = map numbered_topic [1..50]\<rparr>]\<rparr>"

definition repo_29_of_50 :: repo where
  "repo_29_of_50 = save_course_meta repo1 ''cs101-algorithms'' course_29_of_50"

section \<open>Properties of \<open>slugify\<close>\<close>

























section \<open>Creation\<close>

lemma course_dir_created:
  "COURSES_DIR @ ''/'' @ slugify (cc_code c @ ''-'' @ cc_name c) \<in> fs_dirs (snd (create_course g s c))"
  by (simp add: create_course_def Let_def save_index_def save_course_meta_def makedirs_def
      ancestors_def split: sum.splits)

text \<open>
  Claim C2. When the directory of the new course's slug exists, \<open>create_course\<close> raises
  the 400 fault "Course already exists" and returns the store as it was: index, course
  records and content files are untouched. In particular a second creation with the same
  code and name is rejected, whatever the ledger did the first time.
\<close>

theorem create_course_already_exists:
  "(COURSES_DIR @ ''/'' @ slugify (cc_code c @ ''-'' @ cc_name c) \<in> fs_dirs s \<longrightarrow>
      create_course g s c = (Inl (HTTPException 400 ''Course already exists''), s)) \<and>
   create_course g' (snd (create_course g s c)) c =
     (Inl (HTTPException 400 ''Course already exists''), snd (create_course g s c))"
proof (intro conjI impI)
  assume "COURSES_DIR @ ''/'' @ slugify (cc_code c @ ''-'' @ cc_name c) \<in> fs_dirs s"
  then show "create_course g s c = (Inl (HTTPException 400 ''Course already exists''), s)"
    by (simp add: create_course_def Let_def)
next
  show "create_course g' (snd (create_course g s c)) c =
     (Inl (HTTPException 400 ''Course already exists''), snd (create_course g s c))"
    using course_dir_created [of c g s]
    by (simp add: create_course_def [of g' "snd (create_course g s c)"] Let_def)
qed

text \<open>The theorem at the store left by creating CS101 once.\<close>

theorem create_course_already_exists_witness:
  "COURSES_DIR @ ''/'' @ slugify (cc_code cs101 @ ''-'' @ cc_name cs101)
     \<in> fs_dirs (snd (create_course git_ok init_repo cs101)) \<and>
   create_course git_ok (snd (create_course git_ok init_repo cs101)) cs101 =
     (Inl (HTTPException 400 ''Course already exists''),
      snd (create_course git_ok init_repo cs101))"
proof -
  let ?s = "snd (create_course git_ok init_repo cs101)"
  have h: "COURSES_DIR @ ''/'' @ slugify (cc_code cs101 @ ''-'' @ cc_name cs101) \<in> fs_dirs ?s"
    by (rule course_dir_created)
  from create_course_already_exists [where c = cs101 and s = ?s and g = git_ok and g' = git_ok] h
  show ?thesis by blast
qed




lemma run3: "fst (create_topic git_ok repo2 1 1 algo_basics) =
  Inr \<lparr>topic_id = 1, topic_title = ''Algo Basics'', topic_slug = ''algo-basics'',
        topic_file = ''sorting/algo-basics.md'', topic_completed = False,
        topic_priority = ''medium'', topic_time = 15, topic_locked = False\<rparr>"
  by code_simp



section \<open>Lookups, faults and the topic template\<close>

text \<open>
  Claim C8. After a successful \<open>create_topic\<close> the topic's content file holds the
  template: the line \<open># title\<close>, then the placeholder sections. The returned topic is
  not completed and not locked, and a request body without \<open>priority\<close> or \<open>time\<close> gives
  \<open>"medium"\<close> and \<open>15\<close>.
\<close>

theorem create_topic_template_defaults:
  "create_topic g s cid mid (TopicCreate b) = (Inr t, s') \<Longrightarrow>
   (\<exists>cref. find (\<lambda>c. ref_id c = cid) (load_index s) = Some cref \<and>
           fs_text s' (topic_path (ref_slug cref) (topic_file t)) =
             Some (''# '' @ body_title b @
               ''\<newline>\<newline>## Overview\<newline>Write your content here...\<newline>\<newline>## Key Concepts\<newline>\<newline>## Examples\<newline>\<newline>## Practice Problems\<newline>'')) \<and>
   topic_title t = body_title b \<and>
   topic_completed t = False \<and> topic_locked t = False \<and>
   topic_priority t = (case body_priority b of None \<Rightarrow> ''medium'' | Some p \<Rightarrow> p) \<and>
   topic_time t = (case body_time b of None \<Rightarrow> 15 | Some n \<Rightarrow> n)"
  by (auto simp: create_topic_def Let_def TopicCreate_def template_def topic_path_def
      write_text_def save_course_meta_def makedirs_def
      split: option.splits sum.splits if_splits)

text \<open>
  No element with the id: \<open>next(..., None)\<close> is \<open>None\<close>.
\<close>

lemma find_None_ids: "\<forall>x\<in>set xs. f x \<noteq> (k::int) \<Longrightarrow> find (\<lambda>x. f x = k) xs = None"
  by (simp add: find_None_iff)

text \<open>
  Claim C9. Resolution stops at the first level whose id is unknown, with the 404 fault
  that names it: the course when the index has no such id (all five routes); the module
  when the course resolves and its record has no such module (\<open>create_topic\<close>,
  \<open>get_topic\<close>, \<open>update_topic\<close>); the topic when course and module resolve and the module
  has no such topic (\<open>get_topic\<close>, \<open>update_topic\<close>). The store is left as it was.
\<close>

theorem not_found_levels:
  "((\<forall>r\<in>set (load_index s). ref_id r \<noteq> cid) \<longrightarrow>
      get_course s cid = Inl (HTTPException 404 ''Course not found'') \<and>
      create_module g s cid mc = (Inl (HTTPException 404 ''Course not found''), s) \<and>
      create_topic g s cid mid tc = (Inl (HTTPException 404 ''Course not found''), s) \<and>
      get_topic s cid mid tid = Inl (HTTPException 404 ''Course not found'') \<and>
      update_topic ga gb s cid mid tid u = (Inl (HTTPException 404 ''Course not found''), s)) \<and>
   (find (\<lambda>c. ref_id c = cid) (load_index s) = Some cref \<and>
    get_course_meta s (ref_slug cref) = Some meta \<and>
    (\<forall>m\<in>set (course_modules meta). module_id m \<noteq> mid) \<longrightarrow>
      create_topic g s cid mid tc = (Inl (HTTPException 404 ''Module not found''), s) \<and>
      get_topic s cid mid tid = Inl (HTTPException 404 ''Module not found'') \<and>
      update_topic ga gb s cid mid tid u = (Inl (HTTPException 404 ''Module not found''), s)) \<and>
   (find (\<lambda>c. ref_id c = cid) (load_index s) = Some cref \<and>
    get_course_meta s (ref_slug cref) = Some meta \<and>
    find (\<lambda>m. module_id m = mid) (course_modules meta) = Some m \<and>
    (\<forall>t\<in>set (module_topics m). topic_id t \<noteq> tid) \<longrightarrow>
      get_topic s cid mid tid = Inl (HTTPException 404 ''Topic not found'') \<and>
      update_topic ga gb s cid mid tid u = (Inl (HTTPException 404 ''Topic not found''), s))"
proof (intro conjI impI)
  assume "\<forall>r\<in>set (load_index s). ref_id r \<noteq> cid"
  then have f: "find (\<lambda>c. ref_id c = cid) (load_index s) = None" by (rule find_None_ids)
  show "get_course s cid = Inl (HTTPException 404 ''Course not found'')"
    by (simp add: get_course_def f)
  show "create_module g s cid mc = (Inl (HTTPException 404 ''Course not found''), s)"
    by (simp add: create_module_def f)
  show "create_topic g s cid mid tc = (Inl (HTTPException 404 ''Course not found''), s)"
    by (simp add: create_topic_def f)
  show "get_topic s cid mid tid = Inl (HTTPException 404 ''Course not found'')"
    by (simp add: get_topic_def f)
  show "update_topic ga gb s cid mid tid u = (Inl (HTTPException 404 ''Course not found''), s)"
    by (simp add: update_topic_def f)
next
  assume a: "find (\<lambda>c. ref_id c = cid) (load_index s) = Some cref \<and>
    get_course_meta s (ref_slug cref) = Some meta \<and>
    (\<forall>m\<in>set (course_modules meta). module_id m \<noteq> mid)"
  then have f: "find (\<lambda>m. module_id m = mid) (course_modules meta) = None"
    by (simp add: find_None_ids)
  show "create_topic g s cid mid tc = (Inl (HTTPException 404 ''Module not found''), s)"
    using a by (simp add: create_topic_def f)
  show "get_topic s cid mid tid = Inl (HTTPException 404 ''Module not found'')"
    using a by (simp add: get_topic_def f)
  show "update_topic ga gb s cid mid tid u = (Inl (HTTPException 404 ''Module not found''), s)"
    using a by (simp add: update_topic_def f)
next
  assume a: "find (\<lambda>c. ref_id c = cid) (load_index s) = Some cref \<and>
    get_course_meta s (ref_slug cref) = Some meta \<and>
    find (\<lambda>m. module_id m = mid) (course_modules meta) = Some m \<and>
    (\<forall>t\<in>set (module_topics m). topic_id t \<noteq> tid)"
  then have f: "find (\<lambda>t. topic_id t = tid) (module_topics m) = None"
    by (simp add: find_None_ids)
  show "get_topic s cid mid tid = Inl (HTTPException 404 ''Topic not found'')"
    using a by (simp add: get_topic_def f)
  show "update_topic ga gb s cid mid tid u = (Inl (HTTPException 404 ''Topic not found''), s)"
    using a by (simp add: update_topic_def f)
qed



lemma e3: "create_topic git_ok repo2 1 1
    (TopicCreate \<lparr>body_title = ''Algo Basics'', body_priority = None, body_time = None\<rparr>) =
     (Inr \<lparr>topic_id = 1, topic_title = ''Algo Basics'', topic_slug = ''algo-basics'',
        topic_file = ''sorting/algo-basics.md'', topic_completed = False,
        topic_priority = ''medium'', topic_time = 15, topic_locked = False\<rparr>, repo3)"
  using run3 by (simp add: prod_eq_iff repo3_def algo_basics_def)

lemma find_repo2: "find (\<lambda>c. ref_id c = 1) (load_index repo2) =
    Some \<lparr>ref_id = 1, ref_slug = ''cs101-algorithms''\<rparr>"
  by code_simp

text \<open>
  The theorem at the creation of "Algo Basics" in the sample store.
\<close>

theorem create_topic_template_defaults_witness:
  "create_topic git_ok repo2 1 1
    (TopicCreate \<lparr>body_title = ''Algo Basics'', body_priority = None, body_time = None\<rparr>) =
     (Inr \<lparr>topic_id = 1, topic_title = ''Algo Basics'', topic_slug = ''algo-basics'',
        topic_file = ''sorting/algo-basics.md'', topic_completed = False,
        topic_priority = ''medium'', topic_time = 15, topic_locked = False\<rparr>, repo3) \<and>
   fs_text repo3 (topic_path ''cs101-algorithms'' ''sorting/algo-basics.md'') =
     Some ''# Algo Basics\<newline>\<newline>## Overview\<newline>Write your content here...\<newline>\<newline>## Key Concepts\<newline>\<newline>## Examples\<newline>\<newline>## Practice Problems\<newline>''"
  using create_topic_template_defaults [OF e3] e3 find_repo2 by simp

lemma find_repo3: "find (\<lambda>c. ref_id c = 1) (load_index repo3) =
    Some \<lparr>ref_id = 1, ref_slug = ''cs101-algorithms''\<rparr>"
  by code_simp

lemma meta_repo3: "get_course_meta repo3 ''cs101-algorithms'' =
    Some \<lparr>course_id = 1, course_code = ''CS101'', course_name = ''Algorithms'',
         course_slug = ''cs101-algorithms'', course_progress = 0, course_modules =
         [\<lparr>module_id = 1, module_title = ''Sorting'', module_slug = ''sorting'',
           module_completed = False, module_topics =
           [\<lparr>topic_id = 1, topic_title = ''Algo Basics'', topic_slug = ''algo-basics'',
             topic_file = ''sorting/algo-basics.md'', topic_completed = False,
             topic_priority = ''medium'', topic_time = 15, topic_locked = False\<rparr>]\<rparr>]\<rparr>"
  by code_simp

lemma no_course_2: "\<forall>r\<in>set (load_index repo3). ref_id r \<noteq> 2"
  by code_simp

text \<open>
  The theorem in the sample store: course 2, module 7 of course 1 and topic 9 of
  module 1 do not exist.
\<close>

theorem not_found_levels_witness:
  "get_course repo3 2 = Inl (HTTPException 404 ''Course not found'') \<and>
   get_topic repo3 2 1 1 = Inl (HTTPException 404 ''Course not found'') \<and>
   get_topic repo3 1 7 1 = Inl (HTTPException 404 ''Module not found'') \<and>
   create_topic git_ok repo3 1 7 algo_basics = (Inl (HTTPException 404 ''Module not found''), repo3) \<and>
   get_topic repo3 1 1 9 = Inl (HTTPException 404 ''Topic not found'') \<and>
   update_topic git_ok git_ok repo3 1 1 9 \<lparr>upd_content = None, upd_completed = Some True\<rparr> =
     (Inl (HTTPException 404 ''Topic not found''), repo3)"
proof -
  let ?t = "\<lparr>topic_id = 1, topic_title = ''Algo Basics'', topic_slug = ''algo-basics'',
             topic_file = ''sorting/algo-basics.md'', topic_completed = False,
             topic_priority = ''medium'', topic_time = 15, topic_locked = False\<rparr>"
  let ?m = "\<lparr>module_id = 1, module_title = ''Sorting'', module_slug = ''sorting'',
           module_completed = False, module_topics = [?t]\<rparr>"
  let ?c = "\<lparr>course_id = 1, course_code = ''CS101'', course_name = ''Algorithms'',
         course_slug = ''cs101-algorithms'', course_progress = 0, course_modules = [?m]\<rparr>"
  let ?r = "\<lparr>ref_id = 1, ref_slug = ''cs101-algorithms''\<rparr>"
  let ?u = "\<lparr>upd_content = None, upd_completed = Some True\<rparr>"
  have m: "get_course_meta repo3 (ref_slug ?r) = Some ?c" using meta_repo3 by simp
  have 1: "get_course repo3 2 = Inl (HTTPException 404 ''Course not found'') \<and>
      get_topic repo3 2 1 1 = Inl (HTTPException 404 ''Course not found'')"
    using not_found_levels [where s = repo3 and cid = 2 and mid = 1 and tid = 1] no_course_2
    by blast
  have 2: "get_topic repo3 1 7 1 = Inl (HTTPException 404 ''Module not found'') \<and>
      create_topic git_ok repo3 1 7 algo_basics =
        (Inl (HTTPException 404 ''Module not found''), repo3)"
    using not_found_levels [where s = repo3 and cid = 1 and mid = 7 and tid = 1
        and cref = ?r and meta = ?c and g = git_ok and tc = algo_basics] find_repo3 m
    by simp
  have 3: "get_topic repo3 1 1 9 = Inl (HTTPException 404 ''Topic not found'') \<and>
      update_topic git_ok git_ok repo3 1 1 9 ?u =
        (Inl (HTTPException 404 ''Topic not found''), repo3)"
    using not_found_levels [where s = repo3 and cid = 1 and mid = 1 and tid = 9
        and cref = ?r and meta = ?c and m = ?m and ga = git_ok and gb = git_ok and u = ?u]
      find_repo3 m
    by simp
  from 1 2 3 show ?thesis by simp
qed





section \<open>Updates and the ledger\<close>

text \<open>
  Frames of the helpers.
\<close>

lemma fs_text_save_course_meta: "fs_text (save_course_meta s cslug data) = fs_text s"
  by (simp add: save_course_meta_def makedirs_def Let_def)

lemma fs_meta_write_text: "write_text s p txt = Inr s1 \<Longrightarrow> fs_meta s1 = fs_meta s"
  by (auto simp: write_text_def split: if_splits)

lemma update_content_None: "update_content g s cslug t None = (None, s)"
  by (simp add: update_content_def)

lemma fs_meta_update_content:
  "fs_meta (snd (update_content g s cslug t c)) = fs_meta s"
  by (auto simp: update_content_def dest: fs_meta_write_text split: option.splits sum.splits)

text \<open>
  Claim C5. \<open>update_topic\<close> with no \<open>content\<close> leaves every content file as it was, so
  the topic's file is byte-identical. With no \<open>completed\<close> it leaves every course record
  as it was, and the topic it returns is the stored one: the completion flag and the
  other fields are unchanged.
\<close>

theorem update_topic_frames:
  "(upd_content u = None \<longrightarrow>
      fs_text (snd (update_topic ga gb s cid mid tid u)) = fs_text s) \<and>
   (upd_completed u = None \<longrightarrow>
      fs_meta (snd (update_topic ga gb s cid mid tid u)) = fs_meta s \<and>
      (\<forall>t body. fst (update_topic ga gb s cid mid tid u) = Inr (t, body) \<longrightarrow>
         (\<exists>cref meta m. find (\<lambda>c. ref_id c = cid) (load_index s) = Some cref \<and>
            get_course_meta s (ref_slug cref) = Some meta \<and>
            find (\<lambda>m. module_id m = mid) (course_modules meta) = Some m \<and>
            find (\<lambda>t. topic_id t = tid) (module_topics m) = Some t)))"
proof (intro conjI impI allI)
  assume "upd_content u = None"
  then show "fs_text (snd (update_topic ga gb s cid mid tid u)) = fs_text s"
    by (simp add: update_topic_def update_content_None fs_text_save_course_meta Let_def
        split: option.splits sum.splits)
next
  assume n: "upd_completed u = None"
  show "fs_meta (snd (update_topic ga gb s cid mid tid u)) = fs_meta s"
    using fs_meta_update_content
    by (auto simp: update_topic_def n split: option.splits prod.splits) (metis snd_conv)+
next
  fix t body
  assume n: "upd_completed u = None"
    and r: "fst (update_topic ga gb s cid mid tid u) = Inr (t, body)"
  from r show "\<exists>cref meta m. find (\<lambda>c. ref_id c = cid) (load_index s) = Some cref \<and>
            get_course_meta s (ref_slug cref) = Some meta \<and>
            find (\<lambda>m. module_id m = mid) (course_modules meta) = Some m \<and>
            find (\<lambda>t. topic_id t = tid) (module_topics m) = Some t"
    by (auto simp: update_topic_def n split: option.splits prod.splits)
qed

lemma run_upd_completed:
  "fst (update_topic git_ok git_ok repo3 1 1 1 \<lparr>upd_content = None, upd_completed = Some True\<rparr>) =
     Inr (\<lparr>topic_id = 1, topic_title = ''Algo Basics'', topic_slug = ''algo-basics'',
        topic_file = ''sorting/algo-basics.md'', topic_completed = True,
        topic_priority = ''medium'', topic_time = 15, topic_locked = False\<rparr>,
      ''# Algo Basics\<newline>\<newline>## Overview\<newline>Write your content here...\<newline>\<newline>## Key Concepts\<newline>\<newline>## Examples\<newline>\<newline>## Practice Problems\<newline>'')"
  by code_simp

lemma run_upd_content:
  "fst (update_topic git_ok git_ok repo3 1 1 1
      \<lparr>upd_content = Some ''Quick sort notes'', upd_completed = None\<rparr>) =
     Inr (\<lparr>topic_id = 1, topic_title = ''Algo Basics'', topic_slug = ''algo-basics'',
        topic_file = ''sorting/algo-basics.md'', topic_completed = False,
        topic_priority = ''medium'', topic_time = 15, topic_locked = False\<rparr>,
      ''Quick sort notes'')"
  by code_simp

text \<open>
  The theorem at the topic of the sample store: once with only \<open>completed\<close>, once
  with only \<open>content\<close>.
\<close>

theorem update_topic_frames_witness:
  "fs_text (snd (update_topic git_ok git_ok repo3 1 1 1
      \<lparr>upd_content = None, upd_completed = Some True\<rparr>)) = fs_text repo3 \<and>
   fst (update_topic git_ok git_ok repo3 1 1 1 \<lparr>upd_content = None, upd_completed = Some True\<rparr>) =
     Inr (\<lparr>topic_id = 1, topic_title = ''Algo Basics'', topic_slug = ''algo-basics'',
        topic_file = ''sorting/algo-basics.md'', topic_completed = True,
        topic_priority = ''medium'', topic_time = 15, topic_locked = False\<rparr>,
      ''# Algo Basics\<newline>\<newline>## Overview\<newline>Write your content here...\<newline>\<newline>## Key Concepts\<newline>\<newline>## Examples\<newline>\<newline>## Practice Problems\<newline>'') \<and>
   fs_meta (snd (update_topic git_ok git_ok repo3 1 1 1
      \<lparr>upd_content = Some ''Quick sort notes'', upd_completed = None\<rparr>)) = fs_meta repo3 \<and>
   fst (update_topic git_ok git_ok repo3 1 1 1
      \<lparr>upd_content = Some ''Quick sort notes'', upd_completed = None\<rparr>) =
     Inr (\<lparr>topic_id = 1, topic_title = ''Algo Basics'', topic_slug = ''algo-basics'',
        topic_file = ''sorting/algo-basics.md'', topic_completed = False,
        topic_priority = ''medium'', topic_time = 15, topic_locked = False\<rparr>,
      ''Quick sort notes'')"
proof -
  have 1: "fs_text (snd (update_topic git_ok git_ok repo3 1 1 1
      \<lparr>upd_content = None, upd_completed = Some True\<rparr>)) = fs_text repo3"
    using update_topic_frames [where u = "\<lparr>upd_content = None, upd_completed = Some True\<rparr>"
        and ga = git_ok and gb = git_ok and s = repo3 and cid = 1 and mid = 1 and tid = 1]
    by simp
  have 2: "fs_meta (snd (update_topic git_ok git_ok repo3 1 1 1
      \<lparr>upd_content = Some ''Quick sort notes'', upd_completed = None\<rparr>)) = fs_meta repo3"
    using update_topic_frames
      [where u = "\<lparr>upd_content = Some ''Quick sort notes'', upd_completed = None\<rparr>"
        and ga = git_ok and gb = git_ok and s = repo3 and cid = 1 and mid = 1 and tid = 1]
    by simp
  from 1 2 run_upd_completed run_upd_content show ?thesis by simp
qed



















section \<open>Search returns the first twenty matches\<close>
















section \<open>Properties of \<open>calculate_progress\<close>\<close>

text \<open>
  Claim C4 at a course with 50 topics of which 29 are completed. The loops count 50
  and 29; the float quotient \<open>29 / 50\<close> is just below 0.58, its product with 100 rounds
  to 57.99999999999999, and \<open>int\<close> truncates it to 57. The floor of the exact percentage
  is 58.
\<close>

theorem progress_29_of_50:
  "count_modules (course_modules course_29_of_50) (0, 0) = (50, 29) \<and>
   calculate_progress repo_29_of_50 ''cs101-algorithms'' = 57 \<and>
   progress_spec course_29_of_50 = 58"
  by code_simp

text \<open>
  What holds of \<open>calculate_progress\<close> for every course: the counters are the number
  of topics and of completed topics, the result lies between 0 and 100, it is 0 without
  topics and 100 when every topic is completed.
\<close>

lemma count_topics_acc:
  "count_topics ts (a, b) =
     (a + int (length ts), b + int (length (filter topic_completed ts)))"
  by (induction ts arbitrary: a b) simp_all

lemma count_modules_acc:
  "count_modules ms (a, b) =
     (a + int (length (concat (map module_topics ms))),
      b + int (length (filter topic_completed (concat (map module_topics ms)))))"
  by (induction ms arbitrary: a b) (simp_all add: count_topics_acc)

text \<open>
  Bounds on the rounding: a value between 0 and a natural number below \<open>2^52\<close> is
  rounded to a value in the same range.
\<close>

lemma bit_length_le: "n < 2 ^ k \<Longrightarrow> bit_length n \<le> k"
proof (induction k arbitrary: n)
  case 0
  then show ?case by (simp add: bit_length.simps)
next
  case (Suc k)
  from Suc.prems have "n div 2 < 2 ^ k" by simp
  then have "bit_length (n div 2) \<le> k" by (rule Suc.IH)
  then show ?case by (subst bit_length.simps) simp
qed

lemma ilog2_le_52:
  assumes "0 < x" and "x \<le> 100"
  shows "ilog2 x \<le> 52"
proof (cases "1 \<le> x")
  case True
  have "\<lfloor>x\<rfloor> \<le> \<lfloor>100 :: rat\<rfloor>" using assms(2) by (rule floor_mono)
  then have "nat \<lfloor>x\<rfloor> < 128" by linarith
  then have "nat \<lfloor>x\<rfloor> < 2 ^ 7" by simp
  then have "bit_length (nat \<lfloor>x\<rfloor>) \<le> 7" by (rule bit_length_le)
  with True show ?thesis by (simp add: ilog2_def)
next
  case False
  then show ?thesis by (simp add: ilog2_def)
qed

lemma round_half_even_le: "x \<le> of_int n \<Longrightarrow> round_half_even x \<le> n"
proof -
  assume a: "x \<le> of_int n"
  have f: "\<lfloor>x\<rfloor> \<le> n" using a by (simp add: floor_le_iff)
  show ?thesis
  proof (cases "x = of_int \<lfloor>x\<rfloor>")
    case True
    then have "x - of_int \<lfloor>x\<rfloor> = 0" by simp
    then show ?thesis using f by (simp add: round_half_even_def Let_def)
  next
    case False
    have "of_int \<lfloor>x\<rfloor> < x"
      by (rule order.not_eq_order_implies_strict [OF False [symmetric] of_int_floor_le])
    from this a have "(of_int \<lfloor>x\<rfloor> :: rat) < of_int n" by (rule less_le_trans)
    then have "\<lfloor>x\<rfloor> < n" by (simp only: of_int_less_iff)
    then show ?thesis by (simp add: round_half_even_def Let_def)
  qed
qed

lemma round_half_even_nonneg: "0 \<le> x \<Longrightarrow> 0 \<le> round_half_even x"
  by (simp add: round_half_even_def Let_def)

lemma fl_nonneg: "0 \<le> x \<Longrightarrow> 0 \<le> fl x"
  by (auto simp: fl_def Let_def intro!: mult_nonneg_nonneg round_half_even_nonneg divide_nonneg_nonneg)

lemma fl_le:
  assumes "0 < x" and "x \<le> of_nat B" and "ilog2 x \<le> 52"
  shows "fl x \<le> of_nat B"
proof -
  define e where "e = max (ilog2 x) (- 1022)"
  define k where "k = nat (52 - e)"
  have "e \<le> 52" using assms(3) by (simp add: e_def)
  then have ek: "e - 52 = - int k" by (simp add: k_def)
  have ulp: "power_int (2 :: rat) (e - 52) = inverse (2 ^ k)"
    unfolding ek by (simp add: power_int_minus)
  have "x * 2 ^ k \<le> of_nat B * 2 ^ k" using assms(2) by simp
  also have "\<dots> = of_int (int B * 2 ^ k)" by simp
  finally have "round_half_even (x * 2 ^ k) \<le> int B * 2 ^ k" by (rule round_half_even_le)
  then have "(of_int (round_half_even (x * 2 ^ k)) :: rat) \<le> of_int (int B * 2 ^ k)"
    by (simp only: of_int_le_iff)
  then have "(of_int (round_half_even (x * 2 ^ k)) :: rat) * inverse (2 ^ k)
      \<le> of_int (int B * 2 ^ k) * inverse (2 ^ k)"
    by (rule mult_right_mono) simp
  also have "\<dots> = of_nat B" by simp
  finally have r: "(of_int (round_half_even (x * 2 ^ k)) :: rat) * inverse (2 ^ k) \<le> of_nat B" .
  have "fl x = of_int (round_half_even (x * 2 ^ k)) * inverse (2 ^ k)"
    using assms(1) ulp by (simp add: fl_def Let_def e_def [symmetric] divide_inverse)
  with r show ?thesis by simp
qed

lemma fl_unit_interval:
  assumes "0 \<le> x" and "x \<le> 1"
  shows "0 \<le> fl x \<and> fl x \<le> 1"
proof (cases "x = 0")
  case True
  then show ?thesis by (simp add: fl_def)
next
  case False
  with assms have p: "0 < x" by simp
  have "x \<le> 100" using assms(2) by simp
  with p have "ilog2 x \<le> 52" by (rule ilog2_le_52)
  with p have "fl x \<le> of_nat 1" using assms(2) by (intro fl_le) simp_all
  with fl_nonneg [OF assms(1)] show ?thesis by simp
qed

lemma fl_percent:
  assumes "0 \<le> y" and "y \<le> 1"
  shows "0 \<le> fl (y * 100) \<and> fl (y * 100) \<le> 100"
proof (cases "y = 0")
  case True
  then show ?thesis by (simp add: fl_def)
next
  case False
  with assms have p: "0 < y * 100" by simp
  have b: "y * 100 \<le> 100" using assms(2) by simp
  with p have "ilog2 (y * 100) \<le> 52" by (rule ilog2_le_52)
  with p have "fl (y * 100) \<le> of_nat 100" using b by (intro fl_le) simp_all
  moreover have "0 \<le> fl (y * 100)" using assms(1) by (intro fl_nonneg) simp
  ultimately show ?thesis by simp
qed

lemma percent_range:
  assumes "0 \<le> c" and "c \<le> t" and "0 < t"
  shows "0 \<le> py_int (py_float_mul (py_truediv c t) 100) \<and>
         py_int (py_float_mul (py_truediv c t) 100) \<le> 100"
proof -
  have q: "0 \<le> (of_int c :: rat) / of_int t \<and> (of_int c :: rat) / of_int t \<le> 1"
    using assms by simp
  then have "0 \<le> py_truediv c t \<and> py_truediv c t \<le> 1"
    unfolding py_truediv_def by (intro fl_unit_interval) simp_all
  then have z: "0 \<le> py_float_mul (py_truediv c t) 100 \<and> py_float_mul (py_truediv c t) 100 \<le> 100"
    unfolding py_float_mul_def by (intro fl_percent) simp_all
  then have "\<lfloor>py_float_mul (py_truediv c t) 100\<rfloor> \<le> \<lfloor>100 :: rat\<rfloor>"
    by (intro floor_mono) simp
  with z show ?thesis by (simp add: py_int_def)
qed

lemma fl_1: "fl 1 = 1"
  by code_simp

lemma fl_100: "fl 100 = 100"
  by code_simp

lemma percent_all: "0 < t \<Longrightarrow> py_int (py_float_mul (py_truediv t t) 100) = 100"
  by (simp add: py_truediv_def py_float_mul_def fl_1 fl_100 py_int_def)

lemma calculate_progress_counts:
  assumes "get_course_meta s cslug = Some meta"
  shows "calculate_progress s cslug =
     (let topics = concat (map module_topics (course_modules meta));
          total_n = int (length topics);
          completed_n = int (length (filter topic_completed topics))
      in if total_n > 0 then py_int (py_float_mul (py_truediv completed_n total_n) 100) else 0)"
  using assms by (simp add: calculate_progress_def count_modules_acc Let_def)

lemma calculate_progress_range:
  "0 \<le> calculate_progress s cslug \<and> calculate_progress s cslug \<le> 100"
proof (cases "get_course_meta s cslug")
  case None
  then show ?thesis by (simp add: calculate_progress_def)
next
  case (Some meta)
  let ?ts = "concat (map module_topics (course_modules meta))"
  show ?thesis
  proof (cases "?ts = []")
    case True
    then show ?thesis by (simp add: calculate_progress_counts [OF Some])
  next
    case False
    have c: "int (length (filter topic_completed ?ts)) \<le> int (length ?ts)" by simp
    have t: "0 < int (length ?ts)" using False by simp
    have "0 \<le> int (length (filter topic_completed ?ts))" by simp
    from percent_range [OF this c t] t show ?thesis
      by (simp add: calculate_progress_counts [OF Some] Let_def)
  qed
qed

lemma calculate_progress_no_topics:
  "get_course_meta s cslug = Some meta \<Longrightarrow>
   concat (map module_topics (course_modules meta)) = [] \<Longrightarrow> calculate_progress s cslug = 0"
  by (simp add: calculate_progress_counts)

lemma calculate_progress_all_completed:
  assumes "get_course_meta s cslug = Some meta"
    and "concat (map module_topics (course_modules meta)) \<noteq> []"
    and "\<forall>t\<in>set (concat (map module_topics (course_modules meta))). topic_completed t"
  shows "calculate_progress s cslug = 100"
proof -
  let ?ts = "concat (map module_topics (course_modules meta))"
  have f: "filter topic_completed ?ts = ?ts" using assms(3) by (simp only: filter_True)
  have t: "0 < int (length ?ts)" using assms(2) by simp
  show ?thesis
    using t percent_all [OF t]
    by (simp only: calculate_progress_counts [OF assms(1)] Let_def f if_True)
qed

text \<open>
  How far the float computation can be from the exact floor. \<open>ilog2\<close> is the binary
  exponent, each rounding has a relative error of at most \<open>2^(-53)\<close>, and the exact
  percentage is a multiple of \<open>1/total\<close>: for a course with at most \<open>2^44\<close> topics the
  result is the exact floor or one less, never more.
\<close>

lemma bit_length_pos: "0 < n \<Longrightarrow> 0 < bit_length n"
  by (subst bit_length.simps) simp

lemma bit_length_upper: "n < 2 ^ bit_length n"
proof (induction n rule: bit_length.induct)
  case (1 n)
  show ?case
  proof (cases "n = 0")
    case True
    then show ?thesis by simp
  next
    case False
    then have "n div 2 < 2 ^ bit_length (n div 2)" by (rule 1)
    then have "n < 2 * 2 ^ bit_length (n div 2)" by linarith
    with False show ?thesis by (subst bit_length.simps) simp
  qed
qed

lemma bit_length_lower: "0 < n \<Longrightarrow> 2 ^ (bit_length n - 1) \<le> n"
proof (induction n rule: bit_length.induct)
  case (1 n)
  then have n: "n \<noteq> 0" by simp
  show ?case
  proof (cases "n div 2 = 0")
    case True
    then have "bit_length (n div 2) = 0" by (simp add: bit_length.simps)
    then have "bit_length n = 1" using n by (subst bit_length.simps) simp
    with 1(2) show ?thesis by simp
  next
    case False
    then have p: "0 < n div 2" by simp
    from 1(1) [OF n p] have ih: "2 ^ (bit_length (n div 2) - 1) \<le> n div 2" .
    have b: "bit_length n = Suc (bit_length (n div 2))" using n by (subst bit_length.simps) simp
    from bit_length_pos [OF p] obtain j where j: "bit_length (n div 2) = Suc j"
      by (cases "bit_length (n div 2)") auto
    from ih j have "2 ^ j \<le> n div 2" by simp
    then have "2 * 2 ^ j \<le> n" by linarith
    then show ?thesis by (simp add: b j)
  qed
qed

lemma ilog2_ge1:
  assumes "1 \<le> x"
  shows "power_int 2 (ilog2 x) \<le> x \<and> x < power_int 2 (ilog2 x + 1)"
proof -
  define n where "n = nat \<lfloor>x\<rfloor>"
  have fx: "1 \<le> \<lfloor>x\<rfloor>" using assms by simp
  then have n: "0 < n" and nx: "int n = \<lfloor>x\<rfloor>" by (simp_all add: n_def)
  from bit_length_pos [OF n] obtain j where j: "bit_length n = Suc j"
    by (cases "bit_length n") auto
  have e: "ilog2 x = int j" using assms by (simp add: ilog2_def n_def [symmetric] j)
  have "2 ^ j \<le> n" using bit_length_lower [OF n] by (simp add: j)
  then have "(2 :: rat) ^ j \<le> of_nat n" by (metis of_nat_le_iff of_nat_numeral of_nat_power)
  also have "(of_nat n :: rat) = of_int \<lfloor>x\<rfloor>" using nx by (metis of_int_of_nat_eq)
  also have "\<dots> \<le> x" by (rule of_int_floor_le)
  finally have lo: "(2 :: rat) ^ j \<le> x" .
  have "n < 2 ^ Suc j" using bit_length_upper [of n] by (simp add: j)
  then have "n + 1 \<le> 2 ^ Suc j" by simp
  then have "(of_nat (n + 1) :: rat) \<le> 2 ^ Suc j"
    by (metis of_nat_le_iff of_nat_numeral of_nat_power)
  moreover have "x < of_int \<lfloor>x\<rfloor> + 1" by linarith
  moreover have "(of_nat n :: rat) = of_int \<lfloor>x\<rfloor>"
    using nx by (metis of_int_of_nat_eq)
  then have "(of_nat (n + 1) :: rat) = of_int \<lfloor>x\<rfloor> + 1" by simp
  ultimately have hi: "x < (2 :: rat) ^ Suc j" by linarith
  have "power_int (2 :: rat) (int j) = 2 ^ j" by (rule power_int_of_nat)
  moreover have "power_int (2 :: rat) (int j + 1) = 2 ^ Suc j"
    using power_int_of_nat [of "2 :: rat" "Suc j"] by (simp add: add.commute)
  ultimately show ?thesis using lo hi by (simp add: e)
qed

lemma ilog2_lt1:
  assumes "0 < x" and "x < 1"
  shows "power_int 2 (ilog2 x) \<le> x \<and> x < power_int 2 (ilog2 x + 1)"
proof -
  define m where "m = nat (\<lceil>1 / x\<rceil> - 1)"
  have inv: "1 < 1 / x" using assms by simp
  then have c2: "2 \<le> \<lceil>1 / x\<rceil>" by linarith
  then have pos: "0 < \<lceil>1 / x\<rceil> - 1" by linarith
  have m: "0 < m" unfolding m_def using pos by (simp only: zero_less_nat_eq)
  have mx: "int m = \<lceil>1 / x\<rceil> - 1"
    unfolding m_def using pos by (metis less_imp_le nat_0_le)
  from bit_length_pos [OF m] obtain j where j: "bit_length m = Suc j"
    by (cases "bit_length m") auto
  have e: "ilog2 x = - int (Suc j)" using assms by (simp add: ilog2_def m_def [symmetric] j)
  have mr: "(of_nat m :: rat) = of_int \<lceil>1 / x\<rceil> - 1"
    using mx by (metis of_int_of_nat_eq of_int_diff of_int_1)
  \<comment> \<open>lower bound\<close>
  have "m < 2 ^ Suc j" using bit_length_upper [of m] by (simp add: j)
  then have "m + 1 \<le> 2 ^ Suc j" by simp
  then have "(of_nat (m + 1) :: rat) \<le> 2 ^ Suc j"
    by (metis of_nat_le_iff of_nat_numeral of_nat_power)
  then have a: "(of_nat m :: rat) + 1 \<le> 2 ^ Suc j" by simp
  have b: "1 / x \<le> of_int \<lceil>1 / x\<rceil>" by (rule le_of_int_ceiling)
  from a b mr have "1 / x \<le> (2 :: rat) ^ Suc j" by linarith
  then have "1 \<le> (2 :: rat) ^ Suc j * x" using assms(1) by (simp add: divide_le_eq)
  then have lo: "inverse ((2 :: rat) ^ Suc j) \<le> x"
    by (simp add: inverse_eq_divide divide_le_eq mult.commute)
  \<comment> \<open>upper bound\<close>
  have "2 ^ j \<le> m" using bit_length_lower [OF m] by (simp add: j)
  then have a': "(2 :: rat) ^ j \<le> of_nat m" by (metis of_nat_le_iff of_nat_numeral of_nat_power)
  have b': "of_int \<lceil>1 / x\<rceil> - 1 < 1 / x" by linarith
  from a' b' mr have "(2 :: rat) ^ j < 1 / x" by linarith
  then have "(2 :: rat) ^ j * x < 1" using assms(1) by (simp add: less_divide_eq)
  then have hi: "x < inverse ((2 :: rat) ^ j)"
    by (simp add: inverse_eq_divide less_divide_eq mult.commute)
  have p1: "power_int (2 :: rat) (- int (Suc j)) = inverse (2 ^ Suc j)"
    by (simp only: power_int_minus power_int_of_nat)
  have "- int (Suc j) + 1 = - int j" by simp
  then have p2: "power_int (2 :: rat) (- int (Suc j) + 1) = inverse (2 ^ j)"
    by (simp only: power_int_minus power_int_of_nat)
  show ?thesis unfolding e p1 p2 using lo hi by simp
qed

lemma ilog2_bounds:
  "0 < x \<Longrightarrow> power_int 2 (ilog2 x) \<le> x \<and> x < power_int 2 (ilog2 x + 1)"
  using ilog2_ge1 [of x] ilog2_lt1 [of x] by (cases "1 \<le> x") simp_all

lemma round_half_even_error: "\<bar>of_int (round_half_even y) - y\<bar> \<le> 1 / 2"
proof -
  have "of_int \<lfloor>y\<rfloor> \<le> y" and "y < of_int \<lfloor>y\<rfloor> + 1" by linarith+
  then show ?thesis by (auto simp: round_half_even_def Let_def)
qed

lemma ilog2_normal:
  assumes "0 < x" and "power_int 2 (- 1022) \<le> x"
  shows "- 1022 \<le> ilog2 x"
proof (rule ccontr)
  assume "\<not> - 1022 \<le> ilog2 x"
  then have "ilog2 x + 1 \<le> - 1022" by simp
  then have "power_int (2 :: rat) (ilog2 x + 1) \<le> power_int 2 (- 1022)"
    by (rule power_int_increasing) simp
  moreover have "x < power_int 2 (ilog2 x + 1)" using ilog2_bounds [OF assms(1)] by simp
  ultimately show False using assms(2) by linarith
qed

lemma fl_relative_error:
  assumes "0 < x" and "power_int 2 (- 1022) \<le> x"
  shows "\<bar>fl x - x\<bar> \<le> x * (1 / 2 ^ 53)"
proof -
  define e where "e = ilog2 x"
  define ulp :: rat where "ulp = power_int 2 (e - 52)"
  have n: "- 1022 \<le> e" unfolding e_def using assms by (rule ilog2_normal)
  then have m: "max (ilog2 x) (- 1022) = e" by (simp add: e_def)
  have up: "0 < ulp" by (simp add: ulp_def)
  have "ulp = power_int 2 e * power_int 2 (- 52)"
    unfolding ulp_def using power_int_add [of "2 :: rat" e "- 52"] by simp
  also have "power_int (2 :: rat) (- 52) = 1 / 2 ^ 52"
    by (simp add: power_int_minus inverse_eq_divide)
  finally have u1: "ulp = power_int 2 e * (1 / 2 ^ 52)" .
  have "power_int 2 e \<le> x" using ilog2_bounds [OF assms(1)] by (simp add: e_def)
  then have "power_int 2 e * (1 / 2 ^ 52) \<le> x * (1 / 2 ^ 52)"
    by (rule mult_right_mono) simp
  then have u2: "ulp \<le> x * (1 / 2 ^ 52)" by (simp only: u1)
  have fl: "fl x = of_int (round_half_even (x / ulp)) * ulp"
    using assms(1) by (simp add: fl_def Let_def m ulp_def)
  have "fl x - x = (of_int (round_half_even (x / ulp)) - x / ulp) * ulp"
    using up by (simp add: fl field_simps)
  then have "\<bar>fl x - x\<bar> = \<bar>of_int (round_half_even (x / ulp)) - x / ulp\<bar> * ulp"
    using up by (simp add: abs_mult)
  also have "\<dots> \<le> (1 / 2) * ulp"
    using up by (intro mult_right_mono round_half_even_error) simp
  also have "\<dots> \<le> (1 / 2) * (x * (1 / 2 ^ 52))"
    using u2 by (intro mult_left_mono) simp_all
  also have "\<dots> = x * (1 / 2 ^ 53)" by simp
  finally show ?thesis .
qed

lemma floor_percent_gap:
  assumes "0 < t"
  shows "of_int \<lfloor>(of_int c :: rat) / of_int t * 100\<rfloor> \<le> (of_int c :: rat) / of_int t * 100 \<and>
         (of_int c :: rat) / of_int t * 100 + 1 / of_int t
           \<le> of_int \<lfloor>(of_int c :: rat) / of_int t * 100\<rfloor> + 1"
proof -
  define R :: rat where "R = of_int c / of_int t * 100"
  define k where "k = \<lfloor>R\<rfloor>"
  have tp: "0 < (of_int t :: rat)" using assms by simp
  have Rt: "R * of_int t = of_int (100 * c)" using tp by (simp add: R_def)
  have "R < of_int k + 1" unfolding k_def by linarith
  then have "R * of_int t < (of_int k + 1) * of_int t" using tp by (rule mult_strict_right_mono)
  then have "(of_int (100 * c) :: rat) < of_int ((k + 1) * t)" by (simp add: Rt)
  then have "100 * c < (k + 1) * t" by (simp only: of_int_less_iff)
  then have "100 * c + 1 \<le> (k + 1) * t" by simp
  then have "(of_int (100 * c + 1) :: rat) \<le> of_int ((k + 1) * t)" by (simp only: of_int_le_iff)
  then have "R * of_int t + 1 \<le> (of_int k + 1) * of_int t" by (simp add: Rt)
  then have "R + 1 / of_int t \<le> of_int k + 1" using tp by (simp add: field_simps)
  moreover have "of_int k \<le> R" unfolding k_def by (rule of_int_floor_le)
  ultimately show ?thesis by (simp add: R_def k_def)
qed

lemma percent_near_floor:
  assumes "0 \<le> c" and "c \<le> t" and "0 < t" and "t \<le> 2 ^ 44"
  shows "\<lfloor>(of_int c :: rat) / of_int t * 100\<rfloor> - 1 \<le> py_int (py_float_mul (py_truediv c t) 100) \<and>
         py_int (py_float_mul (py_truediv c t) 100) \<le> \<lfloor>(of_int c :: rat) / of_int t * 100\<rfloor>"
proof (cases "c = 0")
  case True
  then show ?thesis by (simp add: py_truediv_def py_float_mul_def fl_def py_int_def)
next
  case False
  with assms(1) have c1: "1 \<le> c" by simp
  define r :: rat where "r = of_int c / of_int t"
  define y where "y = fl r"
  define z where "z = fl (y * 100)"
  define k where "k = \<lfloor>r * 100\<rfloor>"
  have tp: "0 < (of_int t :: rat)" using assms(3) by simp
  have "(of_int t :: rat) \<le> of_int (2 ^ 44)" using assms(4) by (simp only: of_int_le_iff)
  then have t44: "(of_int t :: rat) \<le> 2 ^ 44" by simp
  have tinv: "1 / 2 ^ 44 \<le> 1 / (of_int t :: rat)"
    using tp t44 by (intro divide_left_mono) simp_all
  have "1 / (of_int t :: rat) \<le> of_int c / of_int t"
    using c1 tp by (intro divide_right_mono) simp_all
  then have "1 / (of_int t :: rat) \<le> r" by (simp only: r_def)
  with tinv have r_ge: "1 / 2 ^ 44 \<le> r" by (rule order_trans)
  then have r_pos: "0 < r" by (rule less_le_trans [rotated]) simp
  have r_le: "r \<le> 1" using assms(2,3) by (simp add: r_def)
  have small: "power_int (2 :: rat) (- 1022) \<le> 1 / 2 ^ 44"
  proof -
    have "power_int (2 :: rat) (- 1022) \<le> power_int 2 (- 44)"
      by (rule power_int_increasing) simp_all
    also have "power_int (2 :: rat) (- 44) = 1 / 2 ^ 44"
      by (simp add: power_int_minus inverse_eq_divide)
    finally show ?thesis .
  qed
  have "\<bar>y - r\<bar> \<le> r * (1 / 2 ^ 53)"
    unfolding y_def using r_pos small r_ge by (intro fl_relative_error) simp_all
  moreover have "r * (1 / 2 ^ 53) \<le> 1 * (1 / 2 ^ 53)"
    using r_le by (intro mult_right_mono) simp_all
  ultimately have e1: "\<bar>y - r\<bar> \<le> 1 / 2 ^ 53" by simp
  have y01: "0 \<le> y \<and> y \<le> 1"
    unfolding y_def using r_pos r_le by (intro fl_unit_interval) simp_all
  have y_ge: "1 / 2 ^ 44 - 1 / 2 ^ 53 \<le> y" using e1 r_ge by linarith
  then have w_ge: "1 / 2 ^ 44 \<le> y * 100" by simp
  then have w_pos: "0 < y * 100" by (rule less_le_trans [rotated]) simp
  have "\<bar>z - y * 100\<bar> \<le> y * 100 * (1 / 2 ^ 53)"
    unfolding z_def using w_pos small w_ge by (intro fl_relative_error) simp_all
  moreover have "y * 100 * (1 / 2 ^ 53) \<le> 1 * 100 * (1 / 2 ^ 53)"
    using y01 by (intro mult_right_mono) simp_all
  ultimately have e2: "\<bar>z - y * 100\<bar> \<le> 100 / 2 ^ 53" by simp
  from e1 e2 have near: "\<bar>z - r * 100\<bar> \<le> 200 / 2 ^ 53" by linarith
  from floor_percent_gap [OF assms(3), of c]
  have gap: "of_int k \<le> r * 100 \<and> r * 100 + 1 / of_int t \<le> of_int k + 1"
    by (simp add: r_def k_def)
  have "(200 :: rat) / 2 ^ 53 < 1 / 2 ^ 44" by simp
  with tinv have tiny: "(200 :: rat) / 2 ^ 53 < 1 / of_int t" by linarith
  have hi: "z < of_int k + 1" using near gap tiny by linarith
  have "(200 :: rat) / 2 ^ 53 < 1" by simp
  with near gap have lo: "of_int k - 1 < z" by linarith
  have z0: "0 \<le> z" unfolding z_def using y01 by (intro fl_nonneg) simp
  have "\<lfloor>z\<rfloor> \<le> k" using hi by (simp add: floor_le_iff)
  moreover have "of_int (k - 1) \<le> z" using lo by simp
  then have "k - 1 \<le> \<lfloor>z\<rfloor>" by (simp only: le_floor_iff)
  ultimately show ?thesis
    using z0 by (simp add: py_int_def py_float_mul_def py_truediv_def z_def y_def r_def k_def)
qed

lemma calculate_progress_near_spec:
  assumes "get_course_meta s cslug = Some meta"
    and "length (concat (map module_topics (course_modules meta))) \<le> 2 ^ 44"
  shows "progress_spec meta - 1 \<le> calculate_progress s cslug \<and>
         calculate_progress s cslug \<le> progress_spec meta"
proof -
  let ?ts = "concat (map module_topics (course_modules meta))"
  let ?c = "int (length (filter topic_completed ?ts))"
  let ?t = "int (length ?ts)"
  show ?thesis
  proof (cases "?ts = []")
    case True
    then show ?thesis
      by (simp add: calculate_progress_counts [OF assms(1)] progress_spec_def)
  next
    case False
    then have t: "0 < ?t" by simp
    have c: "0 \<le> ?c" "?c \<le> ?t" by simp_all
    have "?t \<le> int (2 ^ 44)" using assms(2) by (simp only: of_nat_le_iff)
    then have b: "?t \<le> 2 ^ 44" by simp
    have spec: "progress_spec meta = \<lfloor>(of_int ?c :: rat) / of_int ?t * 100\<rfloor>"
      using False by (simp add: progress_spec_def Let_def)
    have code: "calculate_progress s cslug = py_int (py_float_mul (py_truediv ?c ?t) 100)"
      using t by (simp add: calculate_progress_counts [OF assms(1)] Let_def)
    from percent_near_floor [OF c t b] show ?thesis by (simp only: spec code)
  qed
qed

end
